theory Spec2Isabelle
  imports Complex_Main
begin

section \<open>Numbers of the log analyzer\<close>

text \<open>
  The analysis engine of \<^verbatim>\<open>src/src/utils/csvParser.js\<close> computes on JavaScript
  numbers. A number is modelled as either \<open>NaN\<close> (what \<^verbatim>\<open>num\<close> returns for a
  missing or unreadable cell) or an exact rational: the binary rounding of IEEE doubles,
  the infinities and the sign of zero are left out. Every comparison with \<open>NaN\<close> is
  false, as in JavaScript.

  The double the code computes differs from the exact value by a few units in the
  sixteenth significant digit. That is enough to put it on the other side of a tie of
  \<^verbatim>\<open>toFixed\<close> or of a threshold the exact value sits on: the code reads
  \<open>(2500.5 - 2000.4) / 2500.5 * 100\<close> as \<open>19.999999999999996\<close>, below the HPFP risk
  threshold 20 the exact value equals. A statement below that compares a result of the
  code with an exact value of its own is therefore made with a margin, and for readings a
  double holds to that accuracy (\<open>plain_reading\<close>).
\<close>

datatype jsnum = NaN | Num rat

fun isNaN :: "jsnum \<Rightarrow> bool" where
  "isNaN NaN = True"
| "isNaN (Num x) = False"

fun js_lt :: "jsnum \<Rightarrow> jsnum \<Rightarrow> bool" where
  "js_lt (Num a) (Num b) = (a < b)"
| "js_lt a b = False"

fun js_le :: "jsnum \<Rightarrow> jsnum \<Rightarrow> bool" where
  "js_le (Num a) (Num b) = (a \<le> b)"
| "js_le a b = False"

fun js_gt :: "jsnum \<Rightarrow> jsnum \<Rightarrow> bool" where
  "js_gt (Num a) (Num b) = (a > b)"
| "js_gt a b = False"

fun js_ge :: "jsnum \<Rightarrow> jsnum \<Rightarrow> bool" where
  "js_ge (Num a) (Num b) = (a \<ge> b)"
| "js_ge a b = False"

fun js_times :: "jsnum \<Rightarrow> rat \<Rightarrow> jsnum" where
  "js_times NaN k = NaN"
| "js_times (Num a) k = Num (a * k)"

fun js_lift :: "(rat \<Rightarrow> rat) \<Rightarrow> jsnum \<Rightarrow> jsnum" where
  "js_lift f NaN = NaN"
| "js_lift f (Num a) = Num (f a)"

text \<open>\<^verbatim>\<open>xs.filter(v => !isNaN(v))\<close>: the readings that are numbers.\<close>

fun numbers :: "jsnum list \<Rightarrow> rat list" where
  "numbers [] = []"
| "numbers (NaN # vs) = numbers vs"
| "numbers (Num x # vs) = x # numbers vs"

text \<open>
  \<^verbatim>\<open>Math.max(...xs)\<close> and the average \<^verbatim>\<open>xs.reduce((a, b) => a + b, 0) / xs.length\<close>.
  The source calls both on non-empty lists only, after a test of \<^verbatim>\<open>xs.length\<close>.
  The spread passes every element as an argument of the call, and the engine throws a
  \<^verbatim>\<open>RangeError\<close> when there are more of them than its stack holds (some hundred
  thousand): \<open>Math_max\<close> is the value on the lists below that limit.
\<close>

definition Math_max :: "rat list \<Rightarrow> rat" where
  "Math_max xs = Max (set xs)"

definition average :: "rat list \<Rightarrow> rat" where
  "average xs = foldl (\<lambda>a b. a + b) 0 xs / of_nat (length xs)"

text \<open>
  \<^verbatim>\<open>v.toFixed(n)\<close> writes the decimal with \<open>n\<close> digits nearest to \<open>v\<close>, the larger
  one at a tie, after taking the sign off; \<^verbatim>\<open>roundN\<close> reads it back with
  \<^verbatim>\<open>parseFloat\<close>.
\<close>

definition toFixed :: "rat \<Rightarrow> nat \<Rightarrow> rat" where
  "toFixed v n =
     (if v < 0 then - (of_int \<lfloor>(- v) * 10 ^ n + 1 / 2\<rfloor> / 10 ^ n)
      else of_int \<lfloor>v * 10 ^ n + 1 / 2\<rfloor> / 10 ^ n)"

definition roundN :: "rat \<Rightarrow> nat \<Rightarrow> rat" where
  "roundN v n = toFixed v n"

section \<open>Constants\<close>

definition LOAD_DEMAND :: rat where "LOAD_DEMAND = 50"
definition LOAD_WOT :: rat where "LOAD_WOT = 70"
definition BOOST_DEMAND :: rat where "BOOST_DEMAND = 2"
definition BOOST_WOT :: rat where "BOOST_WOT = 8"
definition LOAD_TIMING :: rat where "LOAD_TIMING = 40"

definition AFR_LEAN_RISK :: rat where "AFR_LEAN_RISK = 13.8"
definition AFR_LEAN_CAUTION :: rat where "AFR_LEAN_CAUTION = 13.0"
definition AFR_RICH_RISK :: rat where "AFR_RICH_RISK = 10.0"
definition AFR_RICH_CAUTION :: rat where "AFR_RICH_CAUTION = 10.8"

definition HPFP_DROP_RISK_PCT :: rat where "HPFP_DROP_RISK_PCT = 20"
definition HPFP_DROP_CAUTION_PCT :: rat where "HPFP_DROP_CAUTION_PCT = 10"

definition IAT_RISK_F :: rat where "IAT_RISK_F = 140"
definition IAT_CAUTION_F :: rat where "IAT_CAUTION_F = 120"

definition TIMING_RISK_DEG :: rat where "TIMING_RISK_DEG = - 4.0"
definition TIMING_CAUTION_DEG :: rat where "TIMING_CAUTION_DEG = - 2.0"

definition FUEL_CUT_AFR :: rat where "FUEL_CUT_AFR = 16.5"

section \<open>Helpers\<close>

datatype status = Safe | Caution | Risk

fun STATUS_RANK :: "status \<Rightarrow> nat" where
  "STATUS_RANK Safe = 0"
| "STATUS_RANK Caution = 1"
| "STATUS_RANK Risk = 2"

text \<open>
  \<^verbatim>\<open>worstStatus(...statuses)\<close> folds its arguments from the left, starting at
  \<^verbatim>\<open>'Safe'\<close>. The three status names are non-empty strings, so
  \<^verbatim>\<open>filter(Boolean)\<close> keeps each of them and \<^verbatim>\<open>STATUS_RANK[s] ?? 0\<close> always
  finds the rank.
\<close>

definition worstStatus :: "status list \<Rightarrow> status" where
  "worstStatus statuses =
     foldl (\<lambda>worst s. if STATUS_RANK s > STATUS_RANK worst then s else worst) Safe statuses"

datatype boost_unit = Psi | Bar | Kpa

fun normalizeBoostToPsi :: "jsnum \<Rightarrow> boost_unit \<Rightarrow> jsnum" where
  "normalizeBoostToPsi NaN unit = NaN"
| "normalizeBoostToPsi v Bar = js_times v 14.5038"
| "normalizeBoostToPsi v Kpa = js_times v 0.14504"
| "normalizeBoostToPsi v Psi = v"

record thresholds =
  stoich :: rat
  lean_risk :: rat
  lean_caution :: rat
  rich_risk :: rat
  rich_caution :: rat

text \<open>
  \<^verbatim>\<open>getAfrThresholds(ethanolPercent = 10)\<close>. The argument is \<open>None\<close> when the caller
  passes \<^verbatim>\<open>undefined\<close> (the default parameter 10 applies) and otherwise the number
  \<^verbatim>\<open>Number(ethanolPercent)\<close>. \<^verbatim>\<open>Number(ethanolPercent) || 10\<close> replaces the falsy
  numbers, \<open>NaN\<close> and \<open>0\<close>, by 10.
\<close>

definition ethanol_or_default :: "jsnum option \<Rightarrow> rat" where
  "ethanol_or_default ethanolPercent =
     (case (case ethanolPercent of None \<Rightarrow> Num 10 | Some v \<Rightarrow> v) of
        NaN \<Rightarrow> 10
      | Num x \<Rightarrow> if x = 0 then 10 else x)"

definition getAfrThresholds :: "jsnum option \<Rightarrow> thresholds" where
  "getAfrThresholds ethanolPercent =
     (let e = min 85 (max 0 (ethanol_or_default ethanolPercent));
          st = roundN (14.7 - (14.7 - 9.8) * (e / 85)) 2;
          r = st / 14.7
      in \<lparr> stoich = st,
           lean_risk = roundN (AFR_LEAN_RISK * r) 2,
           lean_caution = roundN (AFR_LEAN_CAUTION * r) 2,
           rich_risk = roundN (AFR_RICH_RISK * r) 2,
           rich_caution = roundN (AFR_RICH_CAUTION * r) 2 \<rparr>)"

definition isDemand :: "jsnum \<Rightarrow> jsnum \<Rightarrow> jsnum \<Rightarrow> jsnum \<Rightarrow> bool" where
  "isDemand load boost pedal throttle =
     (let l = (if isNaN load then Num 0 else load);
          b = (if isNaN boost then Num 0 else boost);
          p = (if isNaN pedal then NaN else pedal);
          t = (if isNaN throttle then NaN else throttle)
      in if \<not> isNaN p \<and> js_lt p (Num 1) \<and> (if \<not> isNaN t then js_lt t (Num 5) else True)
         then False
         else js_ge l (Num LOAD_DEMAND) \<or> js_gt b (Num BOOST_DEMAND))"

definition isWot :: "jsnum \<Rightarrow> jsnum \<Rightarrow> jsnum \<Rightarrow> jsnum \<Rightarrow> bool" where
  "isWot load boost pedal throttle =
     (let l = (if isNaN load then Num 0 else load);
          b = (if isNaN boost then Num 0 else boost);
          p = (if isNaN pedal then NaN else pedal);
          t = (if isNaN throttle then NaN else throttle)
      in if \<not> isNaN p \<and> js_lt p (Num 50) then False
         else if \<not> isNaN t \<and> js_lt t (Num 30) then False
         else js_ge l (Num LOAD_WOT) \<or> js_gt b (Num BOOST_WOT))"


section \<open>Rows and cells\<close>

text \<open>
  A parsed row maps a header to the text of its cell. \<^verbatim>\<open>parseFloat\<close> reads the
  longest decimal literal at the start of the text, after white space: an optional sign,
  digits with an optional fraction, and an optional exponent. The literal
  \<^verbatim>\<open>Infinity\<close> is not modelled and reads as \<open>NaN\<close>. Characters are bytes, so a
  header or cell is taken to be in Latin-1.
\<close>

type_synonym row = "string \<rightharpoonup> string"

definition is_space :: "char \<Rightarrow> bool" where
  "is_space c = (c \<in> set [CHR 0x09, CHR 0x0A, CHR 0x0B, CHR 0x0C, CHR 0x0D, CHR 0x20, CHR 0xA0])"

definition is_digit :: "char \<Rightarrow> bool" where
  "is_digit c = (c \<in> set ''0123456789'')"

definition digit_of :: "char \<Rightarrow> nat" where
  "digit_of c = of_char c - 48"

definition digits_val :: "string \<Rightarrow> nat" where
  "digits_val ds = foldl (\<lambda>n c. 10 * n + digit_of c) 0 ds"

definition exponent_of :: "string \<Rightarrow> int" where
  "exponent_of r =
     (case r of
        [] \<Rightarrow> 0
      | c # r1 \<Rightarrow>
          if c = CHR ''e'' \<or> c = CHR ''E'' then
            (let neg = (r1 \<noteq> [] \<and> hd r1 = CHR ''-'');
                 r2 = (if r1 \<noteq> [] \<and> (hd r1 = CHR ''-'' \<or> hd r1 = CHR ''+'') then tl r1 else r1);
                 ds = takeWhile is_digit r2
             in if ds = [] then 0
                else if neg then - int (digits_val ds) else int (digits_val ds))
          else 0)"

definition parseFloat :: "string \<Rightarrow> jsnum" where
  "parseFloat s =
     (let t = dropWhile is_space s;
          neg = (t \<noteq> [] \<and> hd t = CHR ''-'');
          u = (if t \<noteq> [] \<and> (hd t = CHR ''-'' \<or> hd t = CHR ''+'') then tl t else t);
          ip = takeWhile is_digit u;
          r1 = dropWhile is_digit u;
          dot = (r1 \<noteq> [] \<and> hd r1 = CHR ''.'');
          fp = (if dot then takeWhile is_digit (tl r1) else []);
          r2 = (if dot then dropWhile is_digit (tl r1) else r1);
          ex = exponent_of r2;
          m = of_nat (digits_val ip) + of_nat (digits_val fp) / 10 ^ length fp;
          v = (if ex < 0 then m / 10 ^ nat (- ex) else m * 10 ^ nat ex)
      in if ip = [] \<and> fp = [] then NaN else Num (if neg then - v else v))"

text \<open>
  A column of the mapping is a header or \<^verbatim>\<open>null\<close>. \<^verbatim>\<open>!col\<close> holds for
  \<^verbatim>\<open>null\<close> and for the empty string.
\<close>

definition unresolved :: "string option \<Rightarrow> bool" where
  "unresolved col = (case col of None \<Rightarrow> True | Some c \<Rightarrow> c = [])"

definition num :: "row \<Rightarrow> string option \<Rightarrow> jsnum" where
  "num row col =
     (case col of
        None \<Rightarrow> NaN
      | Some c \<Rightarrow>
          if c = [] then NaN
          else (case row c of
                  None \<Rightarrow> NaN
                | Some cell \<Rightarrow> if cell = [] then NaN else parseFloat cell))"

definition lambdaToAfr :: "rat \<Rightarrow> rat" where
  "lambdaToAfr lambda = lambda * 14.7"

record columns =
  time_col :: "string option"
  rpm_col :: "string option"
  load_col :: "string option"
  afr_col :: "string option"
  boost_col :: "string option"
  iat_col :: "string option"
  hpfp_col :: "string option"
  hpfp_target_col :: "string option"
  afr_target_col :: "string option"
  pedal_col :: "string option"
  throttle_col :: "string option"

text \<open>
  The test the HPFP and IAT analyzers filter their rows with:
  \<^verbatim>\<open>isDemand(load, boost, pedal, throttle)\<close> on the row's four readings, the boost in psi.
\<close>

definition demand_row :: "columns \<Rightarrow> boost_unit \<Rightarrow> row \<Rightarrow> bool" where
  "demand_row columns boostUnit r =
     isDemand (num r (load_col columns))
       (normalizeBoostToPsi (num r (boost_col columns)) boostUnit)
       (num r (pedal_col columns)) (num r (throttle_col columns))"

section \<open>Metric results\<close>

text \<open>
  A note is a fixed text or one of the templates of the source, kept with the values the
  template prints:
  \<^item> \<open>LeanEventsNote n peak\<close>: \<^verbatim>\<open>n lean event(s) at WOT, peak peak:1.\<close>
  \<^item> \<open>RichEventsNote n\<close>: \<^verbatim>\<open>n rich event(s) at WOT.\<close>
  \<^item> \<open>HpfpDroppedNote pct t\<close>: \<^verbatim>\<open>HPFP dropped pct% below target\<close> when \<open>t\<close>, and
    \<^verbatim>\<open>below session peak\<close> otherwise
  \<^item> \<open>HpfpDippedNote pct\<close>: \<^verbatim>\<open>HPFP dipped pct% under load\<close>
  \<^item> \<open>IatExceedsNote peak l\<close> and \<open>IatElevatedNote peak l\<close>: the peak IAT, rounded to a
    whole degree, \<^verbatim>\<open>under load\<close> when \<open>l\<close> and \<^verbatim>\<open>session peak\<close> otherwise
  \<^item> \<open>TimingPullNote label\<close>: \<^verbatim>\<open>Worst timing pull under load: label.\<close>

  The label of the timing result is \<^verbatim>\<open>No timing correction columns found.\<close>,
  \<^verbatim>\<open>No corrections observed under load\<close>, or the worst correction, rounded to one
  digit, with the column it was read from.
\<close>

datatype cylinders_label =
  NoTimingColumns
| NoCorrections
| WorstOn rat string

datatype metric_note =
  Text string
| LeanEventsNote nat rat
| RichEventsNote nat
| HpfpDroppedNote rat bool
| HpfpDippedNote rat
| IatExceedsNote int bool
| IatElevatedNote int bool
| TimingPullNote cylinders_label

record afr_result =
  afr_actual :: "rat option"
  afr_target :: "rat option"
  lean_events :: nat
  rich_events :: nat
  afr_status :: status
  afr_note :: "metric_note option"

record hpfp_result =
  hpfp_actual :: "rat option"
  hpfp_target :: "rat option"
  max_drop_pct :: "rat option"
  hpfp_status :: status
  hpfp_note :: "metric_note option"

datatype iat_unit = F | C

record iat_result =
  iat_value :: "rat option"
  iat_unit :: iat_unit
  peak_f :: "rat option"
  iat_status :: status
  iat_note :: "metric_note option"

record timing_result =
  max_correction :: "rat option"
  cylinders :: cylinders_label
  pull_events :: nat
  timing_status :: status
  timing_note :: "metric_note option"

section \<open>AFR analysis\<close>

definition toAfr :: "bool \<Rightarrow> rat \<Rightarrow> rat" where
  "toAfr isLambdaAfr v = (if isLambdaAfr then lambdaToAfr v else v)"

text \<open>The variables the loop of \<^verbatim>\<open>analyzeAfr\<close> updates.\<close>

record afr_state =
  st_status :: status
  worstLean :: "rat option"
  leanEvents :: nat
  richEvents :: nat
  demandAfrSamples :: "rat list"
  targetSamples :: "rat list"

definition raise_worstLean :: "rat \<Rightarrow> rat option \<Rightarrow> rat option" where
  "raise_worstLean afr w =
     (case w of None \<Rightarrow> Some afr | Some x \<Rightarrow> if afr > x then Some afr else Some x)"

text \<open>One pass of the loop body; \<^verbatim>\<open>continue\<close> returns the state as it is.\<close>

definition afr_step ::
  "columns \<Rightarrow> bool \<Rightarrow> thresholds \<Rightarrow> boost_unit \<Rightarrow> afr_state \<Rightarrow> row \<Rightarrow> afr_state" where
  "afr_step columns isLambdaAfr th boostUnit s row =
     (case num row (afr_col columns) of
        NaN \<Rightarrow> s
      | Num rawAfr \<Rightarrow>
          (let afr = toAfr isLambdaAfr rawAfr in
           if afr \<ge> FUEL_CUT_AFR then s
           else
             (let load = num row (load_col columns);
                  boost = normalizeBoostToPsi (num row (boost_col columns)) boostUnit;
                  pedal = num row (pedal_col columns);
                  throttle = num row (throttle_col columns);
                  s1 = (if isDemand load boost pedal throttle
                        then s\<lparr> demandAfrSamples := demandAfrSamples s @ [afr],
                                targetSamples :=
                                  (if unresolved (afr_target_col columns) then targetSamples s
                                   else (case num row (afr_target_col columns) of
                                           NaN \<Rightarrow> targetSamples s
                                         | Num rawTarget \<Rightarrow>
                                             targetSamples s @ [toAfr isLambdaAfr rawTarget])) \<rparr>
                        else s)
              in if isWot load boost pedal throttle then
                   (if afr > lean_risk th then
                      s1\<lparr> leanEvents := leanEvents s1 + 1, st_status := Risk,
                          worstLean := raise_worstLean afr (worstLean s1) \<rparr>
                    else if afr > lean_caution th \<and> st_status s1 \<noteq> Risk then
                      s1\<lparr> leanEvents := leanEvents s1 + 1, st_status := Caution,
                          worstLean := raise_worstLean afr (worstLean s1) \<rparr>
                    else if afr < rich_risk th then
                      s1\<lparr> richEvents := richEvents s1 + 1, st_status := Risk \<rparr>
                    else if afr < rich_caution th \<and> st_status s1 \<noteq> Risk then
                      s1\<lparr> richEvents := richEvents s1 + 1, st_status := Caution \<rparr>
                    else s1)
                 else s1)))"

definition afr_init :: afr_state where
  "afr_init = \<lparr> st_status = Safe, worstLean = None, leanEvents = 0, richEvents = 0,
                 demandAfrSamples = [], targetSamples = [] \<rparr>"

definition afr_loop ::
  "columns \<Rightarrow> bool \<Rightarrow> thresholds \<Rightarrow> boost_unit \<Rightarrow> row list \<Rightarrow> afr_state \<Rightarrow> afr_state" where
  "afr_loop columns isLambdaAfr th boostUnit rows s =
     foldl (afr_step columns isLambdaAfr th boostUnit) s rows"

definition average_or_null :: "rat list \<Rightarrow> rat option" where
  "average_or_null xs = (if length xs \<noteq> 0 then Some (average xs) else None)"

definition analyzeAfr ::
  "row list \<Rightarrow> columns \<Rightarrow> bool \<Rightarrow> thresholds \<Rightarrow> boost_unit \<Rightarrow> afr_result" where
  "analyzeAfr rows columns isLambdaAfr th boostUnit =
     (if unresolved (afr_col columns) then
        \<lparr> afr_actual = None, afr_target = None, lean_events = 0, rich_events = 0,
          afr_status = Safe, afr_note = Some (Text ''AFR column not found in log.'') \<rparr>
      else
        (let s = afr_loop columns isLambdaAfr th boostUnit rows afr_init;
             avgDemandAfr = average_or_null (demandAfrSamples s);
             avgTarget = average_or_null (targetSamples s);
             displayAfr = (case worstLean s of Some w \<Rightarrow> Some w | None \<Rightarrow> avgDemandAfr);
             nt =
               (if leanEvents s > 0 then
                  Some (LeanEventsNote (leanEvents s)
                          (roundN (case worstLean s of Some w \<Rightarrow> w | None \<Rightarrow> 0) 2))
                else if richEvents s > 0 then Some (RichEventsNote (richEvents s))
                else None)
         in \<lparr> afr_actual = map_option (\<lambda>v. roundN v 2) displayAfr,
              afr_target = map_option (\<lambda>v. roundN v 2) avgTarget,
              lean_events = leanEvents s,
              rich_events = richEvents s,
              afr_status = st_status s,
              afr_note = nt \<rparr>))"

section \<open>HPFP analysis\<close>

text \<open>
  \<^verbatim>\<open>rs.map(r => num(r, col)).filter(v => !isNaN(v) && v > 0)\<close>, the readings of a
  column that are positive numbers.
\<close>

definition positive_readings :: "string option \<Rightarrow> row list \<Rightarrow> rat list" where
  "positive_readings col rs = filter (\<lambda>v. v > 0) (numbers (map (\<lambda>r. num r col) rs))"

text \<open>
  The rows the baseline is taken from: the Demand rows when there are at least five of
  them, all rows otherwise.
\<close>

definition sourceRows :: "row list \<Rightarrow> columns \<Rightarrow> boost_unit \<Rightarrow> row list" where
  "sourceRows rows columns boostUnit =
     (let demandRows = filter (demand_row columns boostUnit) rows
      in if length demandRows \<ge> 5 then demandRows else rows)"

text \<open>The loop over all rows when a target column exists, from \<open>maxDropPct\<close>.\<close>

definition target_drop_step :: "string option \<Rightarrow> string option \<Rightarrow> rat \<Rightarrow> row \<Rightarrow> rat" where
  "target_drop_step actualCol targetCol maxDropPct row =
     (case (num row actualCol, num row targetCol) of
        (Num a, Num t) \<Rightarrow>
          if t \<le> 1000 \<or> a \<le> 0 then maxDropPct
          else (let dropPct = ((t - a) / t) * 100
                in if dropPct > maxDropPct then dropPct else maxDropPct)
      | _ \<Rightarrow> maxDropPct)"

definition target_drop_scan :: "string option \<Rightarrow> string option \<Rightarrow> row list \<Rightarrow> rat \<Rightarrow> rat" where
  "target_drop_scan actualCol targetCol rows maxDropPct =
     foldl (target_drop_step actualCol targetCol) maxDropPct rows"

text \<open>The loop over \<open>actuals\<close> when there is no target column.\<close>

definition peak_drop_scan :: "rat \<Rightarrow> rat list \<Rightarrow> rat \<Rightarrow> rat" where
  "peak_drop_scan peakActual actuals maxDropPct =
     foldl (\<lambda>m a. let dropPct = ((peakActual - a) / peakActual) * 100
                   in if dropPct > m then dropPct else m) maxDropPct actuals"

text \<open>\<^verbatim>\<open>avgTarget ? x : y\<close> takes \<open>y\<close> for \<^verbatim>\<open>null\<close> and for the number 0.\<close>

definition truthy :: "rat option \<Rightarrow> bool" where
  "truthy v = (case v of None \<Rightarrow> False | Some x \<Rightarrow> x \<noteq> 0)"

text \<open>
  \<^verbatim>\<open>analyzeHpfp\<close> after the choice of \<open>sourceRows\<close>: the baseline from \<open>src\<close>, the
  scan for the largest drop, the status.
\<close>

definition hpfp_from :: "row list \<Rightarrow> row list \<Rightarrow> columns \<Rightarrow> hpfp_result" where
  "hpfp_from src rows columns =
     (let actualCol = hpfp_col columns;
          targetCol = hpfp_target_col columns;
          actuals = positive_readings actualCol src
      in if length actuals = 0 then
           \<lparr> hpfp_actual = None, hpfp_target = None, max_drop_pct = None, hpfp_status = Safe,
             hpfp_note = Some (Text ''No valid HPFP readings during engine demand.'') \<rparr>
         else
           (let avgActual = average actuals;
                peakActual = Math_max actuals;
                avgTarget = (if unresolved targetCol then None
                             else average_or_null (positive_readings targetCol src));
                maxDropPct = (if unresolved targetCol then peak_drop_scan peakActual actuals 0
                              else target_drop_scan actualCol targetCol rows 0);
                st = (if maxDropPct \<ge> HPFP_DROP_RISK_PCT then Risk
                      else if maxDropPct \<ge> HPFP_DROP_CAUTION_PCT then Caution else Safe);
                nt = (if maxDropPct \<ge> HPFP_DROP_RISK_PCT
                      then Some (HpfpDroppedNote (roundN maxDropPct 1) (truthy avgTarget))
                      else if maxDropPct \<ge> HPFP_DROP_CAUTION_PCT
                      then Some (HpfpDippedNote (roundN maxDropPct 1))
                      else None)
            in \<lparr> hpfp_actual = Some (roundN avgActual 0),
                 hpfp_target = (if truthy avgTarget then map_option (\<lambda>v. roundN v 0) avgTarget
                                else Some (roundN peakActual 0)),
                 max_drop_pct = Some (roundN maxDropPct 1),
                 hpfp_status = st,
                 hpfp_note = nt \<rparr>))"

definition analyzeHpfp :: "row list \<Rightarrow> columns \<Rightarrow> boost_unit \<Rightarrow> hpfp_result" where
  "analyzeHpfp rows columns boostUnit =
     (if unresolved (hpfp_col columns) then
        \<lparr> hpfp_actual = None, hpfp_target = None, max_drop_pct = None, hpfp_status = Safe,
          hpfp_note = Some (Text ''HPFP column not found in log.'') \<rparr>
      else hpfp_from (sourceRows rows columns boostUnit) rows columns)"

section \<open>IAT analysis\<close>

text \<open>
  \<^verbatim>\<open>toLowerCase\<close> on Latin-1 text and \<^verbatim>\<open>includes\<close> (here \<open>str_includes\<close>), for the unit marker in the
  header of the IAT column.
\<close>

definition lower_char :: "char \<Rightarrow> char" where
  "lower_char c =
     (let n = (of_char c :: nat)
      in if (65 \<le> n \<and> n \<le> 90) \<or> (192 \<le> n \<and> n \<le> 222 \<and> n \<noteq> 215)
         then char_of (n + 32) else c)"

definition toLowerCase :: "string \<Rightarrow> string" where
  "toLowerCase s = map lower_char s"

fun startsWith :: "string \<Rightarrow> string \<Rightarrow> bool" where
  "startsWith s [] = True"
| "startsWith [] (k # ks) = False"
| "startsWith (c # cs) (k # ks) = (c = k \<and> startsWith cs ks)"

fun str_includes :: "string \<Rightarrow> string \<Rightarrow> bool" where
  "str_includes [] k = (k = [])"
| "str_includes (c # cs) k = (startsWith (c # cs) k \<or> str_includes cs k)"

definition detectIatUnit :: "string option \<Rightarrow> iat_unit option" where
  "detectIatUnit colName =
     (if unresolved colName then None
      else
        (let lower = toLowerCase (the colName) in
         if str_includes lower [CHR 0xB0, CHR ''f''] \<or> str_includes lower ''[f]'' \<or> str_includes lower ''(f)''
            \<or> str_includes lower ''_f]'' \<or> str_includes lower '' f]'' \<or> str_includes lower ''_fahrenheit''
         then Some F
         else if str_includes lower [CHR 0xB0, CHR ''c''] \<or> str_includes lower ''[c]''
            \<or> str_includes lower ''(c)'' \<or> str_includes lower ''_c]'' \<or> str_includes lower '' c]''
            \<or> str_includes lower ''_celsius''
         then Some C
         else None))"

definition Math_round :: "rat \<Rightarrow> int" where
  "Math_round v = \<lfloor>v + 1 / 2\<rfloor>"

definition analyzeIat :: "row list \<Rightarrow> columns \<Rightarrow> boost_unit \<Rightarrow> iat_result" where
  "analyzeIat rows columns boostUnit =
     (let iatCol = iat_col columns in
      if unresolved iatCol then
        \<lparr> iat_value = None, iat_unit = F, peak_f = None, iat_status = Safe,
          iat_note = Some (Text ''IAT column not found in log.'') \<rparr>
      else
        (let allValues = numbers (map (\<lambda>r. num r iatCol) rows) in
         if length allValues = 0 then
           \<lparr> iat_value = None, iat_unit = F, peak_f = None, iat_status = Safe,
             iat_note = Some (Text ''No valid IAT readings.'') \<rparr>
         else
           (let colUnit = detectIatUnit iatCol;
                likelyCelsius = (case colUnit of Some u \<Rightarrow> u = C
                                 | None \<Rightarrow> list_all (\<lambda>v. v \<le> 100) allValues);
                unit = (if likelyCelsius then C else F);
                toF = (\<lambda>v. if likelyCelsius then v * 9 / 5 + 32 else v);
                demandRows = filter (demand_row columns boostUnit) rows;
                sourceValues = (if length demandRows \<ge> 5
                                then numbers (map (\<lambda>r. num r iatCol) demandRows)
                                else allValues)
            in if length sourceValues = 0 then
                 \<lparr> iat_value = None, iat_unit = unit, peak_f = None, iat_status = Safe,
                   iat_note = Some (Text ''No valid IAT readings during engine demand.'') \<rparr>
               else
                 (let maxRaw = Math_max sourceValues;
                      peakF = roundN (toF maxRaw) 1;
                      underLoad = (length demandRows \<ge> 5);
                      st = (if peakF \<ge> IAT_RISK_F then Risk
                            else if peakF \<ge> IAT_CAUTION_F then Caution else Safe);
                      nt = (if peakF \<ge> IAT_RISK_F
                            then Some (IatExceedsNote (Math_round peakF) underLoad)
                            else if peakF \<ge> IAT_CAUTION_F
                            then Some (IatElevatedNote (Math_round peakF) underLoad)
                            else None)
                  in \<lparr> iat_value = Some (roundN maxRaw 1), iat_unit = unit,
                       peak_f = Some peakF, iat_status = st, iat_note = nt \<rparr>))))"

section \<open>Timing correction analysis\<close>

record timing_state =
  worstDeg :: rat
  worstCyl :: "string option"
  pullEvents :: nat

definition timing_cell :: "row \<Rightarrow> timing_state \<Rightarrow> string \<Rightarrow> timing_state" where
  "timing_cell row s col =
     (case num row (Some col) of
        NaN \<Rightarrow> s
      | Num val \<Rightarrow>
          (let s1 = (if val < worstDeg s then s\<lparr> worstDeg := val, worstCyl := Some col \<rparr> else s)
           in if val \<le> TIMING_CAUTION_DEG then s1\<lparr> pullEvents := pullEvents s1 + 1 \<rparr> else s1))"

definition timing_step ::
  "string list \<Rightarrow> columns \<Rightarrow> boost_unit \<Rightarrow> timing_state \<Rightarrow> row \<Rightarrow> timing_state" where
  "timing_step timingColumns columns boostUnit s row =
     (let load = num row (load_col columns);
          boost = normalizeBoostToPsi (num row (boost_col columns)) boostUnit;
          pedal = num row (pedal_col columns);
          throttle = num row (throttle_col columns);
          l = (if isNaN load then Num 0 else load);
          b = (if isNaN boost then Num 0 else boost);
          p = (if isNaN pedal then NaN else pedal);
          t = (if isNaN throttle then NaN else throttle)
      in if \<not> isNaN p \<and> js_lt p (Num 1) \<and> (if \<not> isNaN t then js_lt t (Num 5) else True) then s
         else if js_lt l (Num LOAD_TIMING) \<and> js_le b (Num BOOST_DEMAND) then s
         else foldl (timing_cell row) s timingColumns)"

definition analyzeTimingCorrections ::
  "row list \<Rightarrow> string list \<Rightarrow> columns \<Rightarrow> boost_unit \<Rightarrow> timing_result" where
  "analyzeTimingCorrections rows timingColumns columns boostUnit =
     (if length timingColumns = 0 then
        \<lparr> max_correction = None, cylinders = NoTimingColumns, pull_events = 0,
          timing_status = Safe, timing_note = None \<rparr>
      else
        (let s = foldl (timing_step timingColumns columns boostUnit)
                   \<lparr> worstDeg = 0, worstCyl = None, pullEvents = 0 \<rparr> rows;
             st = (if worstDeg s \<le> TIMING_RISK_DEG then Risk
                   else if worstDeg s \<le> TIMING_CAUTION_DEG then Caution else Safe);
             cylLabel = (if unresolved (worstCyl s) then NoCorrections
                         else WorstOn (roundN (worstDeg s) 1) (the (worstCyl s)))
         in \<lparr> max_correction = Some (roundN (worstDeg s) 2),
              cylinders = cylLabel,
              pull_events = pullEvents s,
              timing_status = st,
              timing_note = (if st \<noteq> Safe then Some (TimingPullNote cylLabel) else None) \<rparr>))"

section \<open>Chart data\<close>

text \<open>
  The \<open>time\<close> of a chart point is the rounded reading of the time column, or the text
  of the row index \<^verbatim>\<open>String(i)\<close> when the row has none. An optional field holds
  \<open>None\<close> for \<^verbatim>\<open>undefined\<close>.
\<close>

datatype time_label = TimeValue rat | TimeIndex nat

record chart_point =
  pt_time :: time_label
  afrActual :: "rat option"
  afrTarget :: "rat option"
  pt_boost :: "rat option"
  isLeanWarning :: bool
  isHpfpWarning :: bool
  isTimingWarning :: bool

text \<open>The session peak, kept only when there is an HPFP column and no target column.\<close>

definition hpfpPeak_of :: "row list \<Rightarrow> columns \<Rightarrow> rat option" where
  "hpfpPeak_of rows columns =
     (if \<not> unresolved (hpfp_col columns) \<and> unresolved (hpfp_target_col columns) then
        (let actuals = positive_readings (hpfp_col columns) rows
         in if length actuals \<noteq> 0 then Some (Math_max actuals) else None)
      else None)"

text \<open>\<open>dropPct\<close> of row \<open>j\<close>, whose HPFP reading is the positive number \<open>a\<close>.\<close>

definition row_dropPct :: "columns \<Rightarrow> rat option \<Rightarrow> rat \<Rightarrow> row \<Rightarrow> rat" where
  "row_dropPct columns hpfpPeak a row =
     (if \<not> unresolved (hpfp_target_col columns) then
        (case num row (hpfp_target_col columns) of
           NaN \<Rightarrow> 0
         | Num t \<Rightarrow> if t > 1000 then ((t - a) / t) * 100 else 0)
      else (case hpfpPeak of
              None \<Rightarrow> 0
            | Some pk \<Rightarrow> ((pk - a) / pk) * 100))"

text \<open>
  The search for the worst row: the rows from index \<open>j\<close> on, with the pair
  \<open>(worstDrop, worstHpfpRowIdx)\<close> of the loop.
\<close>

fun worst_hpfp_scan ::
  "columns \<Rightarrow> rat option \<Rightarrow> row list \<Rightarrow> nat \<Rightarrow> rat \<times> int \<Rightarrow> rat \<times> int" where
  "worst_hpfp_scan columns hpfpPeak [] j st = st"
| "worst_hpfp_scan columns hpfpPeak (r # rs) j (worstDrop, worstIdx) =
     worst_hpfp_scan columns hpfpPeak rs (j + 1)
       (case num r (hpfp_col columns) of
          NaN \<Rightarrow> (worstDrop, worstIdx)
        | Num a \<Rightarrow>
            if a \<le> 0 then (worstDrop, worstIdx)
            else (let dropPct = row_dropPct columns hpfpPeak a r
                  in if dropPct > worstDrop then (dropPct, int j) else (worstDrop, worstIdx)))"

definition worstHpfpRowIdx_of :: "row list \<Rightarrow> columns \<Rightarrow> int" where
  "worstHpfpRowIdx_of rows columns =
     (if unresolved (hpfp_col columns) then - 1
      else (case worst_hpfp_scan columns (hpfpPeak_of rows columns) rows 0 (0, - 1) of
              (worstDrop, worstIdx) \<Rightarrow>
                if worstDrop < HPFP_DROP_RISK_PCT then - 1 else worstIdx))"

text \<open>
  The stride. \<^verbatim>\<open>rows.length / maxPoints\<close> is infinite for \<^verbatim>\<open>maxPoints = 0\<close>: the
  loop then stops after the point of row 0, whose window is every row, as it does with
  a stride of \<^verbatim>\<open>rows.length\<close>.
\<close>

definition chart_step :: "nat \<Rightarrow> nat \<Rightarrow> nat" where
  "chart_step n maxPoints =
     (if maxPoints = 0 then max 1 n else max 1 (n div maxPoints))"

text \<open>One row of the window of a point, with the two flags the inner loop sets.\<close>

definition window_row ::
  "columns \<Rightarrow> bool \<Rightarrow> boost_unit \<Rightarrow> thresholds \<Rightarrow> string list \<Rightarrow> bool \<times> bool \<Rightarrow> row
     \<Rightarrow> bool \<times> bool" where
  "window_row columns isLambdaAfr boostUnit th timingColumns flags r =
     (let l = num r (load_col columns);
          p = num r (pedal_col columns);
          tp = num r (throttle_col columns);
          bPsi = normalizeBoostToPsi (num r (boost_col columns)) boostUnit;
          lean = (if \<not> fst flags then
                    (let a = js_lift (toAfr isLambdaAfr) (num r (afr_col columns))
                     in if isWot l bPsi p tp \<and> js_gt a (Num (lean_caution th)) then True
                        else fst flags)
                  else fst flags);
          timing = (if \<not> snd flags \<and> length timingColumns > 0 then
                      (let pl = (if isNaN p then NaN else p);
                           pth = (if isNaN tp then NaN else tp)
                       in if (isNaN pl \<or> js_ge pl (Num 1) \<or> (isNaN pth \<or> js_ge pth (Num 5)))
                             \<and> (js_ge l (Num LOAD_TIMING) \<or> js_gt bPsi (Num BOOST_DEMAND))
                          then foldl (\<lambda>w col. case num r (Some col) of
                                                 NaN \<Rightarrow> w
                                               | Num pull \<Rightarrow> if pull \<le> - 3 then True else w)
                                 (snd flags) timingColumns
                          else snd flags)
                    else snd flags)
      in (lean, timing))"

definition chart_point_at ::
  "row list \<Rightarrow> columns \<Rightarrow> bool \<Rightarrow> boost_unit \<Rightarrow> thresholds \<Rightarrow> string list \<Rightarrow> int \<Rightarrow> nat
     \<Rightarrow> nat \<Rightarrow> chart_point" where
  "chart_point_at rows columns isLambdaAfr boostUnit th timingColumns worstHpfpRowIdx step i =
     (let row = rows ! i;
          rawAfr = num row (afr_col columns);
          rawTarget = num row (afr_target_col columns);
          rawBoost = num row (boost_col columns);
          rawTime = num row (time_col columns);
          boostPsi = normalizeBoostToPsi rawBoost boostUnit;
          afrParsed = (if \<not> isNaN rawAfr then js_lift (toAfr isLambdaAfr) rawAfr else NaN);
          afrDisplay = (case afrParsed of
                          NaN \<Rightarrow> None
                        | Num a \<Rightarrow> if a < FUEL_CUT_AFR then Some (roundN a 2) else None);
          hpfpWarning = (worstHpfpRowIdx \<ge> int i \<and> worstHpfpRowIdx < int i + int step);
          flags = foldl (window_row columns isLambdaAfr boostUnit th timingColumns)
                    (False, False) (take step (drop i rows))
      in \<lparr> pt_time = (case rawTime of NaN \<Rightarrow> TimeIndex i | Num t \<Rightarrow> TimeValue (roundN t 2)),
           afrActual = afrDisplay,
           afrTarget = (case rawTarget of
                          NaN \<Rightarrow> None
                        | Num t \<Rightarrow> Some (roundN (toAfr isLambdaAfr t) 2)),
           pt_boost = (case boostPsi of NaN \<Rightarrow> None | Num b \<Rightarrow> Some (roundN b 1)),
           isLeanWarning = fst flags,
           isHpfpWarning = hpfpWarning,
           isTimingWarning = snd flags \<rparr>)"

text \<open>The loop \<^verbatim>\<open>for (let i = 0; i < rows.length; i += step)\<close>, from \<open>i\<close> on.\<close>

function chart_loop ::
  "row list \<Rightarrow> columns \<Rightarrow> bool \<Rightarrow> boost_unit \<Rightarrow> thresholds \<Rightarrow> string list \<Rightarrow> int \<Rightarrow> nat
     \<Rightarrow> nat \<Rightarrow> chart_point list" where
  "chart_loop rows columns isLambdaAfr boostUnit th timingColumns worstHpfpRowIdx maxPoints i =
     (let step = chart_step (length rows) maxPoints in
      if i < length rows then
        chart_point_at rows columns isLambdaAfr boostUnit th timingColumns worstHpfpRowIdx step i
          # chart_loop rows columns isLambdaAfr boostUnit th timingColumns worstHpfpRowIdx
              maxPoints (i + step)
      else [])"
  by pat_completeness auto
termination
  by (relation "measure (\<lambda>(rows, columns, isLambdaAfr, boostUnit, th, timingColumns,
        worstHpfpRowIdx, maxPoints, i). length rows - i)")
     (auto simp add: chart_step_def)

definition buildChartData ::
  "row list \<Rightarrow> columns \<Rightarrow> bool \<Rightarrow> boost_unit \<Rightarrow> nat \<Rightarrow> thresholds \<Rightarrow> string list
     \<Rightarrow> chart_point list" where
  "buildChartData rows columns isLambdaAfr boostUnit maxPoints th timingColumns =
     chart_loop rows columns isLambdaAfr boostUnit th timingColumns
       (worstHpfpRowIdx_of rows columns) maxPoints 0"

section \<open>The statements the code is compared with\<close>

text \<open>
  The interpolation of the stoichiometric ratio as the specification writes it, without
  the rounding to two digits.
\<close>

definition stoich_formula :: "rat \<Rightarrow> rat" where
  "stoich_formula e = 14.7 - (14.7 - 9.8) * (e / 85)"

text \<open>
  Demand as the specification words it: the lift override needs the pedal and the
  throttle both present.
\<close>

definition spec_isDemand :: "jsnum \<Rightarrow> jsnum \<Rightarrow> jsnum \<Rightarrow> jsnum \<Rightarrow> bool" where
  "spec_isDemand load boost pedal throttle =
     (if \<not> isNaN pedal \<and> \<not> isNaN throttle \<and> js_lt pedal (Num 1) \<and> js_lt throttle (Num 5)
      then False
      else js_ge (if isNaN load then Num 0 else load) (Num 50)
           \<or> js_gt (if isNaN boost then Num 0 else boost) (Num 2))"

text \<open>A row whose converted AFR reading is at or above the fuel-cut threshold 16.5.\<close>

definition fuel_cut_reading :: "columns \<Rightarrow> bool \<Rightarrow> row \<Rightarrow> bool" where
  "fuel_cut_reading columns isLambdaAfr row =
     (case num row (afr_col columns) of
        NaN \<Rightarrow> False
      | Num rawAfr \<Rightarrow> toAfr isLambdaAfr rawAfr \<ge> 16.5)"











section \<open>Example logs\<close>

text \<open>
  Small logs for the concrete instances below. The first has load, boost and AFR
  columns; each of its rows is at load 80 and boost 10.
\<close>

definition afr_columns :: columns where
  "afr_columns =
     \<lparr> time_col = None, rpm_col = None, load_col = Some ''Load'', afr_col = Some ''AFR'',
       boost_col = Some ''Boost'', iat_col = None, hpfp_col = None, hpfp_target_col = None,
       afr_target_col = None, pedal_col = None, throttle_col = None \<rparr>"

definition afr_row :: "string \<Rightarrow> row" where
  "afr_row a = [''Load'' \<mapsto> ''80'', ''Boost'' \<mapsto> ''10'', ''AFR'' \<mapsto> a]"








section \<open>Rounding\<close>

lemma toFixed_nonneg: "0 \<le> v \<Longrightarrow> 0 \<le> toFixed v n"
  by (simp add: toFixed_def)

lemma toFixed_neg_le: "v < 0 \<Longrightarrow> toFixed v n \<le> 0"
proof -
  assume v: "v < 0"
  have "0 \<le> (- v) * 10 ^ n" using v by (intro mult_nonneg_nonneg) simp_all
  then have "0 \<le> (- v) * 10 ^ n + 1 / 2" by simp
  then have "0 \<le> \<lfloor>(- v) * 10 ^ n + 1 / 2\<rfloor>" by (simp only: zero_le_floor)
  then have "0 \<le> rat_of_int \<lfloor>(- v) * 10 ^ n + 1 / 2\<rfloor> / 10 ^ n" by simp
  with v show ?thesis by (simp add: toFixed_def)
qed

lemma toFixed_mono: "a \<le> b \<Longrightarrow> toFixed a n \<le> toFixed b n"
proof -
  assume ab: "a \<le> b"
  have p: "(0::rat) < 10 ^ n" by simp
  show ?thesis
  proof (cases "a < 0")
    case an: True
    show ?thesis
    proof (cases "b < 0")
      case True
      have "(- b) * 10 ^ n + 1 / 2 \<le> (- a) * 10 ^ n + 1 / 2"
        using ab p by (simp add: mult_right_mono)
      then have "\<lfloor>(- b) * 10 ^ n + 1 / 2\<rfloor> \<le> \<lfloor>(- a) * 10 ^ n + 1 / 2\<rfloor>"
        by (rule floor_mono)
      then have "rat_of_int \<lfloor>(- b) * 10 ^ n + 1 / 2\<rfloor> / 10 ^ n \<le> rat_of_int \<lfloor>(- a) * 10 ^ n + 1 / 2\<rfloor> / 10 ^ n"
        using p by (simp add: divide_right_mono)
      with an True show ?thesis by (simp add: toFixed_def)
    next
      case False
      then have "0 \<le> toFixed b n" by (simp add: toFixed_nonneg)
      moreover have "toFixed a n \<le> 0" using an by (rule toFixed_neg_le)
      ultimately show ?thesis by simp
    qed
  next
    case False
    then have bn: "\<not> b < 0" using ab by simp
    have "a * 10 ^ n + 1 / 2 \<le> b * 10 ^ n + 1 / 2"
      using ab p by (simp add: mult_right_mono)
    then have "\<lfloor>a * 10 ^ n + 1 / 2\<rfloor> \<le> \<lfloor>b * 10 ^ n + 1 / 2\<rfloor>"
      by (rule floor_mono)
    then have "rat_of_int \<lfloor>a * 10 ^ n + 1 / 2\<rfloor> / 10 ^ n \<le> rat_of_int \<lfloor>b * 10 ^ n + 1 / 2\<rfloor> / 10 ^ n"
      using p by (simp add: divide_right_mono)
    with False bn show ?thesis by (simp add: toFixed_def)
  qed
qed

lemma half_up_bounds:
  fixes w :: rat
  shows "w - 1 / 2 < rat_of_int \<lfloor>w + 1 / 2\<rfloor> \<and> rat_of_int \<lfloor>w + 1 / 2\<rfloor> \<le> w + 1 / 2"
  by linarith

lemma toFixed_error: "\<bar>toFixed v n - v\<bar> \<le> 1 / (2 * 10 ^ n)"
proof -
  have p: "(0::rat) < 10 ^ n" by simp
  have scale: "\<bar>rat_of_int \<lfloor>w + 1 / 2\<rfloor> / 10 ^ n - w / 10 ^ n\<bar> \<le> 1 / (2 * 10 ^ n)" for w :: rat
  proof -
    have "\<bar>rat_of_int \<lfloor>w + 1 / 2\<rfloor> - w\<bar> \<le> 1 / 2"
      using half_up_bounds [of w] by linarith
    then have "\<bar>rat_of_int \<lfloor>w + 1 / 2\<rfloor> - w\<bar> / 10 ^ n \<le> (1 / 2) / 10 ^ n"
      by (rule divide_right_mono) simp
    moreover have "\<bar>rat_of_int \<lfloor>w + 1 / 2\<rfloor> / 10 ^ n - w / 10 ^ n\<bar> = \<bar>rat_of_int \<lfloor>w + 1 / 2\<rfloor> - w\<bar> / 10 ^ n"
      by (simp add: diff_divide_distrib [symmetric])
    ultimately show ?thesis by simp
  qed
  show ?thesis
  proof (cases "v < 0")
    case True
    have "\<bar>rat_of_int \<lfloor>(- v) * 10 ^ n + 1 / 2\<rfloor> / 10 ^ n - ((- v) * 10 ^ n) / 10 ^ n\<bar> \<le> 1 / (2 * 10 ^ n)"
      by (rule scale)
    then have "\<bar>rat_of_int \<lfloor>(- v) * 10 ^ n + 1 / 2\<rfloor> / 10 ^ n + v\<bar> \<le> 1 / (2 * 10 ^ n)"
      by simp
    then have "\<bar>- (rat_of_int \<lfloor>(- v) * 10 ^ n + 1 / 2\<rfloor> / 10 ^ n) - v\<bar> \<le> 1 / (2 * 10 ^ n)"
      by (simp add: abs_le_iff)
    with True show ?thesis by (simp add: toFixed_def)
  next
    case False
    have "\<bar>rat_of_int \<lfloor>v * 10 ^ n + 1 / 2\<rfloor> / 10 ^ n - (v * 10 ^ n) / 10 ^ n\<bar> \<le> 1 / (2 * 10 ^ n)"
      by (rule scale)
    with False show ?thesis by (simp add: toFixed_def)
  qed
qed

lemma toFixed_upper: "toFixed v n \<le> v + 1 / (2 * 10 ^ n)"
proof -
  have "toFixed v n - v \<le> \<bar>toFixed v n - v\<bar>" by (rule abs_ge_self)
  also have "\<dots> \<le> 1 / (2 * 10 ^ n)" by (rule toFixed_error)
  finally show ?thesis by (simp only: diff_le_eq add.commute)
qed

lemma toFixed_lower: "0 \<le> v \<Longrightarrow> v - 1 / (2 * 10 ^ n) < toFixed v n"
proof -
  assume v: "0 \<le> v"
  have p: "(0::rat) < 10 ^ n" by simp
  have "v * 10 ^ n - 1 / 2 < rat_of_int \<lfloor>v * 10 ^ n + 1 / 2\<rfloor>"
    using half_up_bounds [of "v * 10 ^ n"] by simp
  then have "(v * 10 ^ n - 1 / 2) / 10 ^ n < rat_of_int \<lfloor>v * 10 ^ n + 1 / 2\<rfloor> / 10 ^ n"
    using p by (simp add: divide_strict_right_mono)
  moreover have "(v * 10 ^ n - 1 / 2) / 10 ^ n = v - 1 / (2 * 10 ^ n)"
    by (simp add: diff_divide_distrib)
  ultimately show ?thesis using v by (simp add: toFixed_def)
qed

section \<open>Thresholds\<close>

lemma stoich_of_number:
  "x \<noteq> 0 \<Longrightarrow> stoich (getAfrThresholds (Some (Num x))) = roundN (stoich_formula (min 85 (max 0 x))) 2"
  by (simp add: getAfrThresholds_def ethanol_or_default_def stoich_formula_def Let_def)

lemma stoich_formula_antimono: "a \<le> b \<Longrightarrow> stoich_formula b \<le> stoich_formula a"
  by (simp add: stoich_formula_def)

lemma stoich_formula_pos: "e \<le> 85 \<Longrightarrow> 0 \<le> stoich_formula e"
  by (simp add: stoich_formula_def)

lemma stoich_step:
  assumes "0 < a" "a + 1 \<le> b" "b \<le> 85"
  shows "stoich (getAfrThresholds (Some (Num b))) < stoich (getAfrThresholds (Some (Num a)))"
proof -
  have a: "stoich (getAfrThresholds (Some (Num a))) = toFixed (stoich_formula a) 2"
    using assms by (simp add: stoich_of_number roundN_def)
  have b: "stoich (getAfrThresholds (Some (Num b))) = toFixed (stoich_formula b) 2"
    using assms by (simp add: stoich_of_number roundN_def)
  have lo: "stoich_formula a - 1 / 200 < toFixed (stoich_formula a) 2"
    using toFixed_lower [of "stoich_formula a" 2] assms by (simp add: stoich_formula_pos)
  have hi: "toFixed (stoich_formula b) 2 \<le> stoich_formula b + 1 / 200"
    using toFixed_upper [of "stoich_formula b" 2] by simp
  have gap: "stoich_formula b + 1 / 20 \<le> stoich_formula a"
    using assms by (simp add: stoich_formula_def)
  show ?thesis
    unfolding a b using lo hi gap by linarith
qed

lemma toFixed_decimal: "\<exists>k::int. toFixed v n = rat_of_int k / 10 ^ n"
proof (cases "v < 0")
  case True
  then have "toFixed v n = rat_of_int (- \<lfloor>(- v) * 10 ^ n + 1 / 2\<rfloor>) / 10 ^ n"
    by (simp add: toFixed_def)
  then show ?thesis by (rule exI)
next
  case False
  then have "toFixed v n = rat_of_int \<lfloor>v * 10 ^ n + 1 / 2\<rfloor> / 10 ^ n"
    by (simp add: toFixed_def)
  then show ?thesis by (rule exI)
qed

text \<open>
  C1, as the code has it. For every number other than 0, the stoichiometric ratio is what
  \<^verbatim>\<open>toFixed(2)\<close> makes of the value \<open>v\<close> the code computes for the interpolation
  \<open>14.7 - (14.7 - 9.8) * (e / 85)\<close> of the input clamped to \<open>[0, 85]\<close>: a number of two
  decimals, the one nearest to \<open>v\<close>. The computed \<open>v\<close> is the interpolation up to the
  rounding of the double arithmetic, far less than \<open>10\<^sup>-\<^sup>9\<close>, so the ratio is within
  0.006 of the interpolation; where the interpolation is at a tie, as 13.475 at the input
  21.25, the ratio is either neighbour. An absent or \<open>NaN\<close> input counts as 10, with the
  ratio 14.12. On \<open>(0, 85]\<close> the ratio never increases with the input and decreases
  strictly between inputs at least 1 apart; it is 14.7 for the inputs clamped to 0 from
  below and 9.8 at 85.
\<close>

theorem stoich_rounded_interpolation:
  "(x \<noteq> 0 \<longrightarrow>
      (\<exists>v. \<bar>v - stoich_formula (min 85 (max 0 x))\<bar> \<le> 1 / 10 ^ 9
           \<and> stoich (getAfrThresholds (Some (Num x))) = roundN v 2)
      \<and> (\<exists>k::int. stoich (getAfrThresholds (Some (Num x))) = of_int k / 100)
      \<and> \<bar>stoich (getAfrThresholds (Some (Num x))) - stoich_formula (min 85 (max 0 x))\<bar>
            \<le> 6 / 1000)
   \<and> stoich (getAfrThresholds None) = 14.12
   \<and> stoich (getAfrThresholds (Some NaN)) = 14.12
   \<and> (0 < a \<and> a \<le> b \<and> b \<le> 85 \<longrightarrow>
        stoich (getAfrThresholds (Some (Num b))) \<le> stoich (getAfrThresholds (Some (Num a))))
   \<and> (0 < a \<and> a + 1 \<le> b \<and> b \<le> 85 \<longrightarrow>
        stoich (getAfrThresholds (Some (Num b))) < stoich (getAfrThresholds (Some (Num a))))
   \<and> (x < 0 \<longrightarrow> stoich (getAfrThresholds (Some (Num x))) = 14.7)
   \<and> stoich (getAfrThresholds (Some (Num 85))) = 9.8"
proof (intro conjI impI)
  assume "x \<noteq> 0"
  then have "stoich (getAfrThresholds (Some (Num x))) = roundN (stoich_formula (min 85 (max 0 x))) 2"
    by (rule stoich_of_number)
  then have "\<bar>stoich_formula (min 85 (max 0 x)) - stoich_formula (min 85 (max 0 x))\<bar> \<le> 1 / 10 ^ 9
           \<and> stoich (getAfrThresholds (Some (Num x))) = roundN (stoich_formula (min 85 (max 0 x))) 2"
    by simp
  then show "\<exists>v. \<bar>v - stoich_formula (min 85 (max 0 x))\<bar> \<le> 1 / 10 ^ 9
           \<and> stoich (getAfrThresholds (Some (Num x))) = roundN v 2"
    by (rule exI)
next
  assume "x \<noteq> 0"
  then have "stoich (getAfrThresholds (Some (Num x))) = toFixed (stoich_formula (min 85 (max 0 x))) 2"
    by (simp add: stoich_of_number roundN_def)
  then show "\<exists>k::int. stoich (getAfrThresholds (Some (Num x))) = of_int k / 100"
    using toFixed_decimal [of "stoich_formula (min 85 (max 0 x))" 2] by simp
next
  assume "x \<noteq> 0"
  then have "stoich (getAfrThresholds (Some (Num x))) = toFixed (stoich_formula (min 85 (max 0 x))) 2"
    by (simp add: stoich_of_number roundN_def)
  then show "\<bar>stoich (getAfrThresholds (Some (Num x))) - stoich_formula (min 85 (max 0 x))\<bar>
      \<le> 6 / 1000"
    using toFixed_error [of "stoich_formula (min 85 (max 0 x))" 2] by simp
next
  show "stoich (getAfrThresholds None) = 14.12" by code_simp
next
  show "stoich (getAfrThresholds (Some NaN)) = 14.12" by code_simp
next
  assume h: "0 < a \<and> a \<le> b \<and> b \<le> 85"
  then have "stoich (getAfrThresholds (Some (Num a))) = toFixed (stoich_formula a) 2"
    and "stoich (getAfrThresholds (Some (Num b))) = toFixed (stoich_formula b) 2"
    by (simp_all add: stoich_of_number roundN_def)
  moreover have "toFixed (stoich_formula b) 2 \<le> toFixed (stoich_formula a) 2"
    using h by (intro toFixed_mono stoich_formula_antimono) simp
  ultimately show "stoich (getAfrThresholds (Some (Num b))) \<le> stoich (getAfrThresholds (Some (Num a)))"
    by simp
next
  assume "0 < a \<and> a + 1 \<le> b \<and> b \<le> 85"
  then show "stoich (getAfrThresholds (Some (Num b))) < stoich (getAfrThresholds (Some (Num a)))"
    by (simp add: stoich_step)
next
  assume "x < 0"
  then have "stoich (getAfrThresholds (Some (Num x))) = roundN (stoich_formula 0) 2"
    by (simp add: stoich_of_number)
  also have "\<dots> = 14.7" by code_simp
  finally show "stoich (getAfrThresholds (Some (Num x))) = 14.7" .
next
  show "stoich (getAfrThresholds (Some (Num 85))) = 9.8" by code_simp
qed

theorem stoich_rounded_interpolation_witness:
  "(\<exists>v. \<bar>v - stoich_formula 40\<bar> \<le> 1 / 10 ^ 9
        \<and> stoich (getAfrThresholds (Some (Num 40))) = roundN v 2)
   \<and> \<bar>stoich (getAfrThresholds (Some (Num 40))) - stoich_formula 40\<bar> \<le> 6 / 1000
   \<and> stoich (getAfrThresholds (Some (Num 30))) < stoich (getAfrThresholds (Some (Num 10)))
   \<and> stoich (getAfrThresholds (Some (Num (- 5)))) = 14.7"
  using stoich_rounded_interpolation [of 40 10 30] stoich_rounded_interpolation [of "- 5" 10 30]
  by simp

text \<open>
  The ratio at 40 is 12.39, not the unrounded interpolation, and the inputs 40 and 40.01
  share it: the ratio is not strictly decreasing on \<open>[0, 85]\<close>.
\<close>

theorem stoich_not_exact_counterexample:
  "stoich (getAfrThresholds (Some (Num 40))) \<noteq> 14.7 - (14.7 - 9.8) * (40 / 85)
   \<and> stoich (getAfrThresholds (Some (Num 40.01))) = stoich (getAfrThresholds (Some (Num 40)))"
  by code_simp

text \<open>
  The input 0 is replaced by the default 10 as well: the ratio of E0 is the one of E10.
\<close>

lemma stoich_zero_input:
  "stoich (getAfrThresholds (Some (Num 0))) = 14.12"
  by code_simp

text \<open>
  C8, as the code has it. Each threshold is its E0 constant times \<open>stoich / 14.7\<close>,
  rounded to two digits, where \<open>stoich\<close> is the rounded ratio of the result; the lean-risk
  threshold is within 0.005 of \<open>13.8 * stoich / 14.7\<close>, and at ethanol 40 it is 11.63.
\<close>

theorem lean_risk_rounded_scaling:
  "lean_risk (getAfrThresholds e) = roundN (13.8 * (stoich (getAfrThresholds e) / 14.7)) 2
   \<and> \<bar>lean_risk (getAfrThresholds e) - 13.8 * stoich (getAfrThresholds e) / 14.7\<bar> \<le> 1 / 200
   \<and> lean_caution (getAfrThresholds e) = roundN (13.0 * (stoich (getAfrThresholds e) / 14.7)) 2
   \<and> rich_risk (getAfrThresholds e) = roundN (10.0 * (stoich (getAfrThresholds e) / 14.7)) 2
   \<and> rich_caution (getAfrThresholds e) = roundN (10.8 * (stoich (getAfrThresholds e) / 14.7)) 2
   \<and> lean_risk (getAfrThresholds (Some (Num 40))) = 11.63"
proof (intro conjI)
  show lr: "lean_risk (getAfrThresholds e) = roundN (13.8 * (stoich (getAfrThresholds e) / 14.7)) 2"
    by (simp add: getAfrThresholds_def Let_def AFR_LEAN_RISK_def)
  show "\<bar>lean_risk (getAfrThresholds e) - 13.8 * stoich (getAfrThresholds e) / 14.7\<bar> \<le> 1 / 200"
    unfolding lr roundN_def
    using toFixed_error [of "13.8 * (stoich (getAfrThresholds e) / 14.7)" 2] by simp
  show "lean_caution (getAfrThresholds e) = roundN (13.0 * (stoich (getAfrThresholds e) / 14.7)) 2"
    by (simp add: getAfrThresholds_def Let_def AFR_LEAN_CAUTION_def)
  show "rich_risk (getAfrThresholds e) = roundN (10.0 * (stoich (getAfrThresholds e) / 14.7)) 2"
    by (simp add: getAfrThresholds_def Let_def AFR_RICH_RISK_def)
  show "rich_caution (getAfrThresholds e) = roundN (10.8 * (stoich (getAfrThresholds e) / 14.7)) 2"
    by (simp add: getAfrThresholds_def Let_def AFR_RICH_CAUTION_def)
  show "lean_risk (getAfrThresholds (Some (Num 40))) = 11.63"
    by code_simp
qed

theorem lean_risk_rounded_scaling_witness:
  "lean_risk (getAfrThresholds (Some (Num 85))) = 9.2"
proof -
  have "roundN (13.8 * (stoich (getAfrThresholds (Some (Num 85))) / 14.7)) 2 = 9.2"
    by code_simp
  then show ?thesis
    using lean_risk_rounded_scaling [of "Some (Num 85)"] by simp
qed

text \<open>
  At ethanol 40 the lean-risk threshold differs from \<open>13.8 * stoich / 14.7\<close>, and it is
  not 11.62.
\<close>

theorem lean_risk_not_exact_counterexample:
  "lean_risk (getAfrThresholds (Some (Num 40)))
     \<noteq> 13.8 * stoich (getAfrThresholds (Some (Num 40))) / 14.7
   \<and> lean_risk (getAfrThresholds (Some (Num 40))) \<noteq> 11.62"
  by code_simp

section \<open>Status aggregation\<close>

text \<open>
  C7. On two statuses \<open>worstStatus\<close> is commutative, associative and idempotent, with
  \<open>Safe\<close> as identity, and returns the one of larger rank under
  \<open>Safe < Caution < Risk\<close>; on any list its rank is the largest rank of the list.
\<close>

theorem worstStatus_algebra:
  "worstStatus [a, b] = worstStatus [b, a]
   \<and> worstStatus [worstStatus [a, b], c] = worstStatus [a, worstStatus [b, c]]
   \<and> worstStatus [worstStatus [a, b], c] = worstStatus [a, b, c]
   \<and> worstStatus [a, a] = a
   \<and> worstStatus [Safe, a] = a \<and> worstStatus [a, Safe] = a \<and> worstStatus [] = Safe
   \<and> worstStatus [a, b] = (if STATUS_RANK a < STATUS_RANK b then b else a)
   \<and> STATUS_RANK (worstStatus [a, b]) = max (STATUS_RANK a) (STATUS_RANK b)
   \<and> STATUS_RANK (worstStatus statuses) = foldl max 0 (map STATUS_RANK statuses)
   \<and> STATUS_RANK Safe < STATUS_RANK Caution \<and> STATUS_RANK Caution < STATUS_RANK Risk"
proof -
  have gen: "STATUS_RANK (foldl (\<lambda>worst s. if STATUS_RANK s > STATUS_RANK worst then s else worst) w ss)
      = foldl max (STATUS_RANK w) (map STATUS_RANK ss)" for w ss
    by (induction ss arbitrary: w) (simp_all add: max_def)
  have "STATUS_RANK (worstStatus statuses) = foldl max 0 (map STATUS_RANK statuses)"
    unfolding worstStatus_def using gen [of Safe statuses] by simp
  moreover have "worstStatus [a, b] = worstStatus [b, a]"
    by (cases a; cases b) (simp_all add: worstStatus_def)
  moreover have "worstStatus [worstStatus [a, b], c] = worstStatus [a, worstStatus [b, c]]"
    by (cases a; cases b; cases c) (simp_all add: worstStatus_def)
  moreover have "worstStatus [worstStatus [a, b], c] = worstStatus [a, b, c]"
    by (cases a; cases b; cases c) (simp_all add: worstStatus_def)
  moreover have "worstStatus [a, a] = a \<and> worstStatus [Safe, a] = a \<and> worstStatus [a, Safe] = a"
    by (cases a) (simp_all add: worstStatus_def)
  moreover have "STATUS_RANK (worstStatus [a, b]) = max (STATUS_RANK a) (STATUS_RANK b)"
    by (cases a; cases b) (simp_all add: worstStatus_def)
  moreover have "worstStatus [a, b] = (if STATUS_RANK a < STATUS_RANK b then b else a)"
    by (cases a; cases b) (simp_all add: worstStatus_def)
  moreover have "worstStatus [] = Safe"
    by (simp add: worstStatus_def)
  moreover have "STATUS_RANK Safe < STATUS_RANK Caution \<and> STATUS_RANK Caution < STATUS_RANK Risk"
    by simp
  ultimately show ?thesis by blast
qed

theorem worstStatus_algebra_witness:
  "worstStatus [Caution, Risk] = Risk \<and> worstStatus [Risk, Caution] = Risk
   \<and> worstStatus [Safe, Caution, Safe, Safe] = Caution"
proof -
  have "worstStatus [Risk, Caution] = Risk" by (simp add: worstStatus_def)
  moreover have "worstStatus [Safe, Caution, Safe, Safe] = Caution" by (simp add: worstStatus_def)
  ultimately show ?thesis
    using worstStatus_algebra [of Caution Risk Safe "[]"] by simp
qed

section \<open>Row classification\<close>

text \<open>
  C2, as the code has it. A row is Demand exactly when load is at least 50 or boost is
  above 2 psi, unless the pedal is present and below 1 and the throttle is absent or
  below 5. A missing load or boost counts as 0, and a row with none of the four readings
  is not Demand. With the pedal absent or the throttle present, this is the Demand of
  the specification.
\<close>

theorem isDemand_lift_guard:
  "isDemand load boost pedal throttle =
     (\<not> (js_lt pedal (Num 1) \<and> (isNaN throttle \<or> js_lt throttle (Num 5)))
      \<and> (js_ge load (Num 50) \<or> js_gt boost (Num 2)))
   \<and> isDemand NaN boost pedal throttle = isDemand (Num 0) boost pedal throttle
   \<and> isDemand load NaN pedal throttle = isDemand load (Num 0) pedal throttle
   \<and> \<not> isDemand NaN NaN NaN NaN
   \<and> (isNaN pedal \<or> \<not> isNaN throttle
        \<longrightarrow> isDemand load boost pedal throttle = spec_isDemand load boost pedal throttle)"
  by (cases load; cases boost; cases pedal; cases throttle)
     (auto simp add: isDemand_def spec_isDemand_def LOAD_DEMAND_def BOOST_DEMAND_def)

theorem isDemand_lift_guard_witness:
  "isDemand (Num 80) NaN (Num 0) (Num 12) \<and> \<not> isDemand (Num 80) NaN (Num 0) (Num 3)
   \<and> \<not> isDemand (Num 80) (Num 10) (Num 0) NaN"
  using isDemand_lift_guard [of "Num 80" NaN "Num 0" "Num 12"]
    isDemand_lift_guard [of "Num 80" NaN "Num 0" "Num 3"]
    isDemand_lift_guard [of "Num 80" "Num 10" "Num 0" NaN]
  by (simp add: spec_isDemand_def)

text \<open>
  With the pedal lifted and no throttle reading the code rejects a row of load 80 and
  boost 10, which the specification counts as Demand.
\<close>

theorem isDemand_pedal_only_counterexample:
  "spec_isDemand (Num 80) (Num 10) (Num 0) NaN \<and> \<not> isDemand (Num 80) (Num 10) (Num 0) NaN"
  by (simp add: spec_isDemand_def isDemand_def LOAD_DEMAND_def BOOST_DEMAND_def)

section \<open>AFR analysis\<close>

lemmas parse_defs =
  num_def parseFloat_def is_space_def is_digit_def digits_val_def digit_of_def exponent_of_def

lemma foldl_skip:
  assumes "\<And>s x. P x \<Longrightarrow> f s x = s"
  shows "foldl f s xs = foldl f s (filter (\<lambda>x. \<not> P x) xs)"
  using assms by (induction xs arbitrary: s) simp_all

lemma afr_step_fuel_cut:
  "fuel_cut_reading columns isLambdaAfr row \<Longrightarrow> afr_step columns isLambdaAfr th boostUnit s row = s"
proof -
  assume "fuel_cut_reading columns isLambdaAfr row"
  then obtain rawAfr where r: "num row (afr_col columns) = Num rawAfr"
    and c: "toAfr isLambdaAfr rawAfr \<ge> FUEL_CUT_AFR"
    by (auto simp add: fuel_cut_reading_def FUEL_CUT_AFR_def split: jsnum.splits)
  show ?thesis
    unfolding afr_step_def by (simp only: r jsnum.case Let_def c if_True)
qed

lemma afr_loop_fuel_cut:
  "afr_loop columns isLambdaAfr th boostUnit rows s
     = afr_loop columns isLambdaAfr th boostUnit
         (filter (\<lambda>r. \<not> fuel_cut_reading columns isLambdaAfr r) rows) s"
  unfolding afr_loop_def
  by (rule foldl_skip) (rule afr_step_fuel_cut)

text \<open>
  C3. A row whose converted AFR reading is 16.5 or more leaves every variable of the loop as
  it is: the lean and rich counts, the status, the worst lean reading and the Demand
  samples of AFR and AFR target. The loop and the whole analyzer give the same result on
  the log with all such rows taken out, whatever the regime of these rows.
\<close>

theorem fuel_cut_rows_excluded:
  "(fuel_cut_reading columns isLambdaAfr row
      \<longrightarrow> afr_step columns isLambdaAfr th boostUnit s row = s)
   \<and> afr_loop columns isLambdaAfr th boostUnit rows s
       = afr_loop columns isLambdaAfr th boostUnit
           (filter (\<lambda>r. \<not> fuel_cut_reading columns isLambdaAfr r) rows) s
   \<and> analyzeAfr rows columns isLambdaAfr th boostUnit
       = analyzeAfr (filter (\<lambda>r. \<not> fuel_cut_reading columns isLambdaAfr r) rows)
           columns isLambdaAfr th boostUnit"
proof (intro conjI impI)
  assume "fuel_cut_reading columns isLambdaAfr row"
  then show "afr_step columns isLambdaAfr th boostUnit s row = s"
    by (rule afr_step_fuel_cut)
next
  show "afr_loop columns isLambdaAfr th boostUnit rows s
       = afr_loop columns isLambdaAfr th boostUnit
           (filter (\<lambda>r. \<not> fuel_cut_reading columns isLambdaAfr r) rows) s"
    by (rule afr_loop_fuel_cut)
next
  show "analyzeAfr rows columns isLambdaAfr th boostUnit
       = analyzeAfr (filter (\<lambda>r. \<not> fuel_cut_reading columns isLambdaAfr r) rows)
           columns isLambdaAfr th boostUnit"
    unfolding analyzeAfr_def
    using afr_loop_fuel_cut [of columns isLambdaAfr th boostUnit rows afr_init] by simp
qed

lemma num_None: "num row None = NaN"
  by (simp add: num_def)

lemma afr_row_readings:
  "num (afr_row a) (Some ''AFR'') = (if a = [] then NaN else parseFloat a)"
  "num (afr_row a) (Some ''Load'') = Num 80"
  "num (afr_row a) (Some ''Boost'') = Num 10"
  by (simp_all add: afr_row_def parse_defs)

lemma parse_examples:
  "parseFloat ''17.0'' = Num 17" "parseFloat ''15.0'' = Num 15" "parseFloat ''16.5'' = Num 16.5"
  by (simp_all add: parse_defs)

text \<open>
  A reading of 17.0 and one of 16.5 at wide-open throttle, around a lean reading of 15.0:
  one lean event is counted.
\<close>

theorem fuel_cut_rows_excluded_witness:
  "fuel_cut_reading afr_columns False (afr_row ''17.0'')
   \<and> isWot (Num 80) (Num 10) NaN NaN \<and> isDemand (Num 80) (Num 10) NaN NaN
   \<and> analyzeAfr [afr_row ''17.0'', afr_row ''15.0'', afr_row ''16.5''] afr_columns False
        (getAfrThresholds (Some (Num 10))) Psi
      = analyzeAfr [afr_row ''15.0''] afr_columns False (getAfrThresholds (Some (Num 10))) Psi
   \<and> lean_events (analyzeAfr [afr_row ''15.0''] afr_columns False
        (getAfrThresholds (Some (Num 10))) Psi) = 1"
proof -
  have c: "fuel_cut_reading afr_columns False (afr_row ''17.0'')"
    "fuel_cut_reading afr_columns False (afr_row ''16.5'')"
    "\<not> fuel_cut_reading afr_columns False (afr_row ''15.0'')"
    by (simp_all add: fuel_cut_reading_def afr_columns_def afr_row_readings parse_examples toAfr_def)
  have w: "isWot (Num 80) (Num 10) NaN NaN \<and> isDemand (Num 80) (Num 10) NaN NaN"
    by (simp add: isWot_def isDemand_def LOAD_WOT_def LOAD_DEMAND_def)
  have lr: "lean_risk (getAfrThresholds (Some (Num 10))) = 13.26" by code_simp
  have l: "lean_events (analyzeAfr [afr_row ''15.0''] afr_columns False
        (getAfrThresholds (Some (Num 10))) Psi) = 1"
    using w
    by (simp add: analyzeAfr_def afr_loop_def afr_step_def afr_init_def afr_columns_def
        unresolved_def afr_row_readings num_None parse_examples toAfr_def FUEL_CUT_AFR_def lr Let_def)
  show ?thesis
    using fuel_cut_rows_excluded [of afr_columns False "afr_row ''17.0''"
        "getAfrThresholds (Some (Num 10))" Psi afr_init
        "[afr_row ''17.0'', afr_row ''15.0'', afr_row ''16.5'']"] c w l
    by simp
qed

section \<open>HPFP analysis\<close>














































section \<open>Chart data\<close>

lemma chart_step_pos: "0 < chart_step n maxPoints"
  by (auto simp add: chart_step_def max_def)

lemma stride_count:
  fixes k step n :: nat
  assumes "0 < step"
  shows "k * step < n \<longleftrightarrow> k < (n + step - 1) div step"
proof -
  have "k < (n + step - 1) div step \<longleftrightarrow> Suc k \<le> (n + step - 1) div step"
    by auto
  also have "\<dots> \<longleftrightarrow> Suc k * step \<le> n + step - 1"
    using assms by (simp only: less_eq_div_iff_mult_less_eq)
  also have "\<dots> \<longleftrightarrow> k * step < n"
    using assms by auto
  finally show ?thesis by simp
qed

lemma chart_loop_strides:
  "i = k0 * chart_step (length rows) maxPoints \<Longrightarrow>
   chart_loop rows columns isLambdaAfr boostUnit th timingColumns w maxPoints i
     = map (\<lambda>k. chart_point_at rows columns isLambdaAfr boostUnit th timingColumns w
                  (chart_step (length rows) maxPoints)
                  (k * chart_step (length rows) maxPoints))
         [k0 ..< (length rows + chart_step (length rows) maxPoints - 1)
                   div chart_step (length rows) maxPoints]"
proof (induction rows columns isLambdaAfr boostUnit th timingColumns w maxPoints i
    arbitrary: k0 rule: chart_loop.induct)
  case (1 rows columns isLambdaAfr boostUnit th timingColumns w maxPoints i)
  let ?step = "chart_step (length rows) maxPoints"
  let ?cnt = "(length rows + ?step - 1) div ?step"
  have pos: "0 < ?step" by (rule chart_step_pos)
  show ?case
  proof (cases "i < length rows")
    case True
    then have k: "k0 < ?cnt"
      using stride_count [OF pos, of k0 "length rows"] "1.prems" by simp
    have next_i: "i + ?step = Suc k0 * ?step"
      using "1.prems" by simp
    have "chart_loop rows columns isLambdaAfr boostUnit th timingColumns w maxPoints (i + ?step)
        = map (\<lambda>k. chart_point_at rows columns isLambdaAfr boostUnit th timingColumns w ?step
                     (k * ?step)) [Suc k0 ..< ?cnt]"
      using "1.IH" [OF refl True next_i] .
    then show ?thesis
      using True k "1.prems"
      by (subst chart_loop.simps) (simp add: upt_conv_Cons Let_def del: chart_loop.simps)
  next
    case False
    then have "\<not> k0 < ?cnt"
      using stride_count [OF pos, of k0 "length rows"] "1.prems" by simp
    then show ?thesis
      using False by (subst chart_loop.simps) (simp add: Let_def del: chart_loop.simps)
  qed
qed

lemma buildChartData_strides:
  "buildChartData rows columns isLambdaAfr boostUnit maxPoints th timingColumns
     = map (\<lambda>k. chart_point_at rows columns isLambdaAfr boostUnit th timingColumns
                  (worstHpfpRowIdx_of rows columns)
                  (chart_step (length rows) maxPoints)
                  (k * chart_step (length rows) maxPoints))
         [0 ..< (length rows + chart_step (length rows) maxPoints - 1)
                  div chart_step (length rows) maxPoints]"
  unfolding buildChartData_def by (rule chart_loop_strides) simp

lemma buildChartData_length:
  "length (buildChartData rows columns isLambdaAfr boostUnit maxPoints th timingColumns)
     = (length rows + chart_step (length rows) maxPoints - 1)
         div chart_step (length rows) maxPoints"
  by (simp add: buildChartData_strides)

text \<open>
  C5 does not hold of the code. The stride is \<open>max 1 (n div 150)\<close>, rounded down, so a
  log of 299 rows has stride 1 and gives 299 chart points, more than the budget of 150.
\<close>

theorem chart_budget_exceeded:
  "length rows = 299 \<Longrightarrow>
   length (buildChartData rows columns isLambdaAfr boostUnit 150 th timingColumns) = 299"
  by (simp add: buildChartData_length chart_step_def)

theorem chart_budget_exceeded_witness:
  "length (replicate 299 (afr_row ''15.0'')) = 299
   \<and> length (buildChartData (replicate 299 (afr_row ''15.0'')) afr_columns False Psi 150
        (getAfrThresholds None) []) = 299"
  using chart_budget_exceeded [of "replicate 299 (afr_row ''15.0'')" afr_columns False Psi
      "getAfrThresholds None" "[]"]
  by simp

text \<open>
  With the budget of 150 the chart stays below 300 points.
\<close>

lemma chart_length_bound:
  "length (buildChartData rows columns isLambdaAfr boostUnit 150 th timingColumns) < 300"
proof -
  let ?n = "length rows"
  show ?thesis
  proof (cases "?n < 150")
    case True
    then show ?thesis by (simp add: buildChartData_length chart_step_def)
  next
    case False
    define q where "q = ?n div 150"
    have q: "1 \<le> q" using False by (simp add: q_def)
    have st: "chart_step ?n 150 = q" using q by (simp add: chart_step_def q_def)
    have "?n < 150 * q + 150"
      unfolding q_def using div_mult_mod_eq [of ?n 150] pos_mod_bound [of 150 "int ?n"]
      by (metis add.commute add_less_cancel_left mod_less_divisor mult.commute zero_less_numeral)
    then have "?n + q - 1 < 300 * q" using q by linarith
    then have "(?n + q - 1) div q < 300"
      using q by (simp add: div_less_iff_less_mult)
    then show ?thesis by (simp add: buildChartData_length st)
  qed
qed















section \<open>Missing columns\<close>

lemma demand_row_other_columns:
  "demand_row (columns\<lparr> afr_col := c \<rparr>) u = demand_row columns u"
  "demand_row (columns\<lparr> hpfp_col := c \<rparr>) u = demand_row columns u"
  "demand_row (columns\<lparr> hpfp_target_col := c \<rparr>) u = demand_row columns u"
  "demand_row (columns\<lparr> iat_col := c \<rparr>) u = demand_row columns u"
  by (simp_all add: demand_row_def fun_eq_iff)

lemma afr_step_other_columns:
  "afr_step (columns\<lparr> hpfp_col := c, hpfp_target_col := c', iat_col := c'' \<rparr>) l th u s row
     = afr_step columns l th u s row"
  by (simp add: afr_step_def cong: if_cong jsnum.case_cong)

lemma analyzeAfr_other_columns:
  "analyzeAfr rows (columns\<lparr> hpfp_col := c, hpfp_target_col := c', iat_col := c'' \<rparr>) l th u
     = analyzeAfr rows columns l th u"
proof -
  have "afr_step (columns\<lparr> hpfp_col := c, hpfp_target_col := c', iat_col := c'' \<rparr>) l th u
      = afr_step columns l th u"
    by (intro ext) (rule afr_step_other_columns)
  then show ?thesis by (simp add: analyzeAfr_def afr_loop_def)
qed

lemma analyzeIat_other_columns:
  "analyzeIat rows (columns\<lparr> afr_col := c, hpfp_col := c', hpfp_target_col := c'' \<rparr>) u
     = analyzeIat rows columns u"
  by (simp add: analyzeIat_def demand_row_other_columns cong: if_cong)

lemma analyzeHpfp_other_columns:
  "analyzeHpfp rows (columns\<lparr> afr_col := c, iat_col := c' \<rparr>) u = analyzeHpfp rows columns u"
  by (simp add: analyzeHpfp_def hpfp_from_def sourceRows_def demand_row_other_columns
      cong: if_cong)

lemma timing_step_other_columns:
  "timing_step tcs (columns\<lparr> afr_col := c, hpfp_col := c', iat_col := c'' \<rparr>) u s row
     = timing_step tcs columns u s row"
  by (simp add: timing_step_def cong: if_cong)

lemma analyzeTiming_other_columns:
  "analyzeTimingCorrections rows tcs (columns\<lparr> afr_col := c, hpfp_col := c', iat_col := c'' \<rparr>) u
     = analyzeTimingCorrections rows tcs columns u"
proof -
  have "timing_step tcs (columns\<lparr> afr_col := c, hpfp_col := c', iat_col := c'' \<rparr>) u
      = timing_step tcs columns u"
    by (intro ext) (rule timing_step_other_columns)
  then show ?thesis by (simp add: analyzeTimingCorrections_def)
qed

text \<open>
  An analyzer whose column is unresolved (AFR, HPFP, IAT) returns at once, with status
  Safe, no value and the note that the column was not found; with no timing column the
  timing analyzer returns Safe, no value and no note. No analyzer reads the column of
  another: its result is the same whatever the AFR, HPFP or IAT column of the others
  resolves to.

  \<^verbatim>\<open>analyzeLog\<close> calls the four analyzers and \<^verbatim>\<open>buildChartData\<close> one after
  the other and catches no exception, so it returns only when each of them does. The
  HPFP analyzer, the IAT analyzer and \<^verbatim>\<open>buildChartData\<close> each spread a list of
  readings into \<^verbatim>\<open>Math.max\<close>, which throws \<^verbatim>\<open>RangeError\<close> on a log long enough:
  a missing AFR or IAT column does not keep a long log with an HPFP column from ending the
  analysis that way.
\<close>

lemma missing_column_results:
  "(unresolved (afr_col columns) \<longrightarrow>
        analyzeAfr rows columns l th u
          = \<lparr> afr_actual = None, afr_target = None, lean_events = 0, rich_events = 0,
              afr_status = Safe, afr_note = Some (Text ''AFR column not found in log.'') \<rparr>)
   \<and> (unresolved (hpfp_col columns) \<longrightarrow>
        analyzeHpfp rows columns u
          = \<lparr> hpfp_actual = None, hpfp_target = None, max_drop_pct = None, hpfp_status = Safe,
              hpfp_note = Some (Text ''HPFP column not found in log.'') \<rparr>)
   \<and> (unresolved (iat_col columns) \<longrightarrow>
        analyzeIat rows columns u
          = \<lparr> iat_value = None, iat_unit = F, peak_f = None, iat_status = Safe,
              iat_note = Some (Text ''IAT column not found in log.'') \<rparr>)
   \<and> analyzeTimingCorrections rows [] columns u
       = \<lparr> max_correction = None, cylinders = NoTimingColumns, pull_events = 0,
           timing_status = Safe, timing_note = None \<rparr>"
  by (simp add: analyzeAfr_def analyzeHpfp_def analyzeIat_def analyzeTimingCorrections_def)

end
